theory Spec2Isabelle
  imports Main
begin

section \<open>JavaScript primitives used by the constructs\<close>

text \<open>
  \<open>Error\<close> is a plain \<^verbatim>\<open>Error\<close> thrown by one of the two source files, with its
  message. The other three are the errors the library's base classes throw on a name they
  do not accept; their message texts are not in the source files, so each is told apart
  by its kind and carries the offending name.
\<close>

datatype error =
    Error string
  | ActionNameInvalid string
  | ConstructIdEmpty
  | ConstructIdTaken string

text \<open>\<^verbatim>\<open>s.startsWith(p)\<close> and the one-argument \<^verbatim>\<open>s.substr(start)\<close>.\<close>

definition startsWith :: "string \<Rightarrow> string \<Rightarrow> bool" where
  "startsWith s p = (take (length p) s = p)"

definition substr :: "string \<Rightarrow> nat \<Rightarrow> string" where
  "substr s start = drop start s"

text \<open>
  \<^verbatim>\<open>s.split(sep)\<close> for a one-character separator: the scan cuts the string at
  every occurrence of the separator; \<open>cur\<close> is the piece read since the last cut.
  The result is never empty (\<^verbatim>\<open>"".split("/")\<close> is \<^verbatim>\<open>[""]\<close>).
\<close>

fun split_from :: "char \<Rightarrow> string \<Rightarrow> string \<Rightarrow> string list" where
  "split_from sep cur [] = [cur]"
| "split_from sep cur (c # cs) =
     (if c = sep then cur # split_from sep [] cs else split_from sep (cur @ [c]) cs)"

definition split_str :: "string \<Rightarrow> char \<Rightarrow> string list" where
  "split_str s sep = split_from sep [] s"

text \<open>
  Reading position \<open>i\<close> of an array, as the destructuring
  \<^verbatim>\<open>const [ owner, repo ] = ...\<close> does: a position past the end reads
  \<^verbatim>\<open>undefined\<close>, here \<open>None\<close>.
\<close>

definition element :: "'a list \<Rightarrow> nat \<Rightarrow> 'a option" where
  "element xs i = (if i < length xs then Some (xs ! i) else None)"

text \<open>
  \<^verbatim>\<open>xs.join(sep)\<close>: the empty array gives the empty string; otherwise the result
  starts as the first element and each later element is appended after a separator.
\<close>

fun join_from :: "string \<Rightarrow> string \<Rightarrow> string list \<Rightarrow> string" where
  "join_from sep r [] = r"
| "join_from sep r (x # xs) = join_from sep (r @ sep @ x) xs"

definition join :: "string list \<Rightarrow> string \<Rightarrow> string" where
  "join xs sep = (case xs of [] \<Rightarrow> [] | x # rest \<Rightarrow> join_from sep x rest)"

text \<open>
  \<^verbatim>\<open>v || d\<close> on an optional string: \<^verbatim>\<open>undefined\<close> and the empty string are
  both falsy.
\<close>

definition or_default :: "string option \<Rightarrow> string \<Rightarrow> string" where
  "or_default v d = (case v of None \<Rightarrow> d | Some s \<Rightarrow> if s = [] then d else s)"

text \<open>Updating the object stored at a position of a store; other positions are untouched.\<close>

definition modify :: "'a list \<Rightarrow> nat \<Rightarrow> ('a \<Rightarrow> 'a) \<Rightarrow> 'a list" where
  "modify xs i f = (if i < length xs then xs[i := f (xs ! i)] else xs)"


section \<open>The library's base classes\<close>

text \<open>
  Modelled from the library's behaviour, its code not being among the source files: a
  scope is known by the ids of the children it holds. The base constructor of a construct,
  \<^verbatim>\<open>super(scope, id)\<close> and each \<^verbatim>\<open>new X(scope, id, ...)\<close>, throws when the
  id is empty or when the scope already holds a child with that id; otherwise it registers
  the id in the scope.
\<close>

type_synonym Scope = "string list"

definition Construct_constructor :: "Scope \<Rightarrow> string \<Rightarrow> error + Scope" where
  "Construct_constructor scope ident =
     (if ident = [] then Inl ConstructIdEmpty
      else if ident \<in> set scope then Inl (ConstructIdTaken ident)
      else Inr (scope @ [ident]))"

text \<open>
  Modelled from the library's behaviour: the base constructor of a pipeline action throws
  unless the action name matches \<^verbatim>\<open>/^[a-zA-Z0-9.@_-]{1,100}$/\<close>.
\<close>

definition validNameChar :: "char \<Rightarrow> bool" where
  "validNameChar c =
     (c \<in> set ''abcdefghijklmnopqrstuvwxyzABCDEFGHIJKLMNOPQRSTUVWXYZ0123456789.@_-'')"

definition validName :: "string \<Rightarrow> bool" where
  "validName s = (s \<noteq> [] \<and> length s \<le> 100 \<and> list_all validNameChar s)"


section \<open>The deploy action (\<^verbatim>\<open>DeployAction\<close>)\<close>

text \<open>
  An artifact is a named handle. The output artifact of an action built by a library
  construct is known only as "the output of the construct with that id".
\<close>

datatype Artifact = Artifact string | OutputArtifactOf string

record DeployActionProps =
  dp_stacks :: "string list option"
  dp_exclusively :: "bool option"
  dp_admin :: bool
  dp_version :: "string option"
  dp_assembly :: Artifact

record ArtifactBounds =
  minInputs :: nat
  maxInputs :: nat
  minOutputs :: nat
  maxOutputs :: nat

text \<open>
  Objects created by \<^verbatim>\<open>bind\<close> live in a store and are held by reference (their
  position in the store).
\<close>

type_synonym ref = nat

type_synonym IStage = string

record PolicyStatement =
  ps_resources :: "string list"
  ps_actions :: "string list"

definition PolicyStatement_new :: PolicyStatement where
  "PolicyStatement_new = \<lparr>ps_resources = [], ps_actions = []\<rparr>"

definition addAllResources :: "PolicyStatement \<Rightarrow> PolicyStatement" where
  "addAllResources s = s\<lparr>ps_resources := ps_resources s @ [''*'']\<rparr>"

definition addAction :: "PolicyStatement \<Rightarrow> string \<Rightarrow> PolicyStatement" where
  "addAction s a = s\<lparr>ps_actions := ps_actions s @ [a]\<rparr>"

text \<open>
  The description of a build-service project: the id it was created under, the properties
  \<^verbatim>\<open>bind\<close> passes, and the statements this class hands to its
  \<^verbatim>\<open>addToRolePolicy\<close>, in call order.
\<close>

record Project =
  project_id :: string
  buildImage :: string
  buildSpec_version :: string
  install_commands :: "string list"
  build_commands :: "string list"
  rolePolicy :: "PolicyStatement list"

record PipelineBuildAction =
  pba_actionName :: string
  pba_inputArtifact :: Artifact
  pba_project :: ref
  pba_bound :: "IStage option"

record Store =
  projects :: "Project list"
  buildActions :: "PipelineBuildAction list"

datatype Configuration = ConfigurationOf ref

text \<open>
  The fields of a \<^verbatim>\<open>DeployAction\<close>: those of the base class set by
  \<^verbatim>\<open>super(...)\<close> and \<^verbatim>\<open>addInputArtifact\<close>, then the class's own. The
  private \<^verbatim>\<open>_buildAction\<close> and \<^verbatim>\<open>_project\<close> are \<open>priv_buildAction\<close> and
  \<open>priv_project\<close>.
\<close>

record DeployAction =
  category :: string
  provider :: string
  artifactBounds :: ArtifactBounds
  actionName :: string
  inputArtifacts :: "Artifact list"
  da_stacks :: string
  priv_buildAction :: "ref option"
  priv_project :: "ref option"
  da_admin :: bool
  toolchainVersion :: string
  da_assembly :: Artifact
  da_exclusively :: bool

text \<open>
  The constructor computes the stack string, then calls \<^verbatim>\<open>super({...})\<close> with the
  action name: the base constructor throws on a name it does not accept, and nothing is
  constructed. Otherwise the fields are set.
\<close>

definition DeployAction_constructor :: "DeployActionProps \<Rightarrow> error + DeployAction" where
  "DeployAction_constructor props =
     (let stacks = (case dp_stacks props of Some ss \<Rightarrow> join ss '' '' | None \<Rightarrow> '''');
          name = join (case dp_stacks props of Some ss \<Rightarrow> ss | None \<Rightarrow> [''all'']) ''-''
      in if \<not> validName name then Inl (ActionNameInvalid name)
         else Inr
           \<lparr> category = ''Build'',
             provider = ''CodeBuild'',
             artifactBounds = \<lparr>minInputs = 1, maxInputs = 1, minOutputs = 0, maxOutputs = 0\<rparr>,
             actionName = name,
             inputArtifacts = [],
             da_stacks = stacks,
             priv_buildAction = None,
             priv_project = None,
             da_admin = dp_admin props,
             toolchainVersion = or_default (dp_version props) ''latest'',
             da_assembly = dp_assembly props,
             da_exclusively = (case dp_exclusively props of None \<Rightarrow> False | Some _ \<Rightarrow> True) \<rparr>)"

definition buildAction :: "DeployAction \<Rightarrow> error + ref" where
  "buildAction this =
     (case priv_buildAction this of
        None \<Rightarrow> Inl (Error ''Action not bound to pipeline'')
      | Some b \<Rightarrow> Inr b)"

definition project :: "DeployAction \<Rightarrow> error + ref" where
  "project this =
     (case priv_project this of
        None \<Rightarrow> Inl (Error ''Action not bound to pipeline'')
      | Some p \<Rightarrow> Inr p)"

text \<open>
  The \<^verbatim>\<open>configuration\<close> property the constructor defines: it reads
  \<^verbatim>\<open>this.buildAction.configuration\<close>, the configuration object of the bound action.
\<close>

definition configuration :: "DeployAction \<Rightarrow> error + Configuration" where
  "configuration this =
     (case buildAction this of Inl e \<Rightarrow> Inl e | Inr b \<Rightarrow> Inr (ConfigurationOf b))"

definition Project_addToRolePolicy :: "ref \<Rightarrow> PolicyStatement \<Rightarrow> Store \<Rightarrow> Store" where
  "Project_addToRolePolicy p statement st =
     st\<lparr>projects := modify (projects st) p (\<lambda>pr. pr\<lparr>rolePolicy := rolePolicy pr @ [statement]\<rparr>)\<rparr>"

definition addToRolePolicy :: "DeployAction \<Rightarrow> PolicyStatement \<Rightarrow> Store \<Rightarrow> error + Store" where
  "addToRolePolicy this statement st =
     (case project this of
        Inl e \<Rightarrow> Inl e
      | Inr p \<Rightarrow> Inr (Project_addToRolePolicy p statement st))"

text \<open>
  Modelled from the library's behaviour: the base class's \<^verbatim>\<open>addInputArtifact\<close>
  adds an artifact the action does not hold yet and leaves one it holds as it is.
\<close>

definition addInputArtifact :: "DeployAction \<Rightarrow> Artifact \<Rightarrow> DeployAction" where
  "addInputArtifact this artifact =
     this\<lparr>inputArtifacts :=
            (if artifact \<in> set (inputArtifacts this) then inputArtifacts this
             else inputArtifacts this @ [artifact])\<rparr>"

text \<open>
  The library's own \<^verbatim>\<open>bind\<close> of the wrapped build action is recorded as the stage
  it was called with.
\<close>

definition PipelineBuildAction_bind :: "ref \<Rightarrow> IStage \<Rightarrow> Store \<Rightarrow> Store" where
  "PipelineBuildAction_bind b stage st =
     st\<lparr>buildActions := modify (buildActions st) b (\<lambda>a. a\<lparr>pba_bound := Some stage\<rparr>)\<rparr>"

definition deploy_command :: "string \<Rightarrow> string \<Rightarrow> string \<Rightarrow> string" where
  "deploy_command version exclusively stacks =
     ''npx --package aws-cdk@'' @ version @ '' -- cdk deploy '' @ exclusively
       @ '' --require-approval=never '' @ stacks"

text \<open>
  \<^verbatim>\<open>bind\<close> returns the action, the scope and the store as it leaves them, or the
  error thrown. Its first effect is the creation of the project in the scope; when that
  throws, nothing has been changed.
\<close>

definition bind ::
  "DeployAction \<Rightarrow> IStage \<Rightarrow> Scope \<Rightarrow> Store \<Rightarrow> error + (DeployAction \<times> Scope \<times> Store)" where
  "bind this stage scope st =
     (let exclusively = (if da_exclusively this then ''--exclusively'' else '''')
      in case Construct_constructor scope ''DeployStackProject'' of
           Inl e \<Rightarrow> Inl e
         | Inr scope1 \<Rightarrow>
             (let project = length (projects st);
                  st1 = st\<lparr>projects := projects st @
                          [\<lparr> project_id = ''DeployStackProject'',
                             buildImage = ''UBUNTU_14_04_NODEJS_10_1_0'',
                             buildSpec_version = ''0.2'',
                             install_commands = [''npx npm@latest ci''],
                             build_commands =
                               [deploy_command (toolchainVersion this) exclusively (da_stacks this)],
                             rolePolicy = [] \<rparr>]\<rparr>;
                  this1 = addInputArtifact this (da_assembly this);
                  this2 = this1\<lparr>priv_project := Some project\<rparr>;
                  b = length (buildActions st1);
                  st2 = st1\<lparr>buildActions := buildActions st1 @
                          [\<lparr> pba_actionName = actionName this2,
                             pba_inputArtifact = da_assembly this2,
                             pba_project = project,
                             pba_bound = None \<rparr>]\<rparr>;
                  this3 = this2\<lparr>priv_buildAction := Some b\<rparr>;
                  st3 = PipelineBuildAction_bind b stage st2
              in if da_admin this3
                 then (case addToRolePolicy this3
                              (addAction (addAllResources PolicyStatement_new) ''*'') st3 of
                         Inl e \<Rightarrow> Inl e
                       | Inr st4 \<Rightarrow> Inr (this3, scope1, st4))
                 else Inr (this3, scope1, st3)))"

text \<open>
  A client's later use of an action: reads of the project, of the bound action and of the
  configuration, and calls of \<^verbatim>\<open>addToRolePolicy\<close>, one after the other. Each
  returns the action and the store as it leaves them; the first error ends the sequence.
\<close>

datatype call = ReadProject | ReadBuildAction | ReadConfiguration | AddToRolePolicy PolicyStatement

fun do_call :: "call \<Rightarrow> DeployAction \<Rightarrow> Store \<Rightarrow> error + (DeployAction \<times> Store)" where
  "do_call ReadProject this st =
     (case project this of Inl e \<Rightarrow> Inl e | Inr _ \<Rightarrow> Inr (this, st))"
| "do_call ReadBuildAction this st =
     (case buildAction this of Inl e \<Rightarrow> Inl e | Inr _ \<Rightarrow> Inr (this, st))"
| "do_call ReadConfiguration this st =
     (case configuration this of Inl e \<Rightarrow> Inl e | Inr _ \<Rightarrow> Inr (this, st))"
| "do_call (AddToRolePolicy statement) this st =
     (case addToRolePolicy this statement st of Inl e \<Rightarrow> Inl e | Inr st' \<Rightarrow> Inr (this, st'))"

fun do_calls :: "call list \<Rightarrow> DeployAction \<Rightarrow> Store \<Rightarrow> error + (DeployAction \<times> Store)" where
  "do_calls [] this st = Inr (this, st)"
| "do_calls (c # cs) this st =
     (case do_call c this st of Inl e \<Rightarrow> Inl e | Inr (this', st') \<Rightarrow> do_calls cs this' st')"


section \<open>The pipeline (\<^verbatim>\<open>Pipeline\<close>)\<close>

text \<open>
  The build environment (\<^verbatim>\<open>codebuild.BuildEnvironment\<close>) is a library type that
  the pipeline only passes on: it is the type parameter \<open>'env\<close>.
\<close>

record 'env PipelineProps =
  oauthSecret :: string
  source :: string
  branch :: "string option"
  workdir :: "string option"
  pp_stacks :: "string list option"
  environment :: "'env option"
  install :: "string option"
  build :: "string option"
  pp_exclusively :: "bool option"
  pp_admin :: "bool option"
  pp_version :: "string option"

text \<open>
  A value handed to a library construct is a literal string or a token that the library
  resolves later: the string value of the secret construct with that id, or the name of
  the bucket construct with that id.
\<close>

datatype Value = Literal string | StringValueOf string | BucketNameOf string

record GitHubSourceAction =
  gh_actionName :: string
  owner :: "string option"
  repo :: "string option"
  oauthToken :: Value
  outputArtifactName :: string
  gh_branch :: "string option"

definition outputArtifact :: "GitHubSourceAction \<Rightarrow> Artifact" where
  "outputArtifact a = Artifact (outputArtifactName a)"

text \<open>
  \<^verbatim>\<open>BuildAction\<close> (\<^verbatim>\<open>../lib/build\<close>) is used through its constructor only:
  the construct is described by its id and the properties passed, its \<^verbatim>\<open>.action\<close>
  by the id, and that action's output artifact by \<open>OutputArtifactOf\<close> the id.
\<close>

record 'env BuildActionProps =
  sourceArtifact :: Artifact
  ba_workdir :: "string option"
  ba_build :: "string option"
  ba_environment :: "'env option"
  ba_install :: "string option"
  ba_version :: "string option"

record PipelineDeployAction =
  pda_inputArtifact :: Artifact
  pda_actionName :: string
  pda_bucket :: string
  pda_objectKey :: string
  pda_extract :: bool

datatype Action =
    SourceAction GitHubSourceAction
  | BuildActionOf string
  | DeployStacks DeployAction
  | PublishAction PipelineDeployAction

record Stage =
  stage_name :: string
  actions :: "Action list"

text \<open>
  The constructs a \<^verbatim>\<open>Pipeline\<close> creates with itself as scope. Each carries the id
  it is created under, then the properties passed: the secret id; the build properties;
  \<^verbatim>\<open>versioned\<close>; \<^verbatim>\<open>restartExecutionOnUpdate\<close> and the stages; the value and
  the export name.
\<close>

datatype 'env Construct =
    SecretString string string
  | BuildAction string "'env BuildActionProps"
  | Bucket string bool
  | CodePipeline string bool "Stage list"
  | CfnOutput string Value string

fun construct_id :: "'env Construct \<Rightarrow> string" where
  "construct_id (SecretString i _) = i"
| "construct_id (BuildAction i _) = i"
| "construct_id (Bucket i _) = i"
| "construct_id (CodePipeline i _ _) = i"
| "construct_id (CfnOutput i _ _) = i"

text \<open>
  Modelled from the library's behaviour: the constructor of \<^verbatim>\<open>codepipeline.Pipeline\<close>
  attaches every action of every stage, in order, and attaching an action calls its
  \<^verbatim>\<open>bind\<close> with the stage and a scope made for that action alone, which holds
  nothing yet. Of the four actions only the deploy action's \<^verbatim>\<open>bind\<close> is among the
  source files; the other three are library actions and are kept as they are.
\<close>

fun attach_action :: "IStage \<Rightarrow> Action \<Rightarrow> Store \<Rightarrow> error + (Action \<times> Store)" where
  "attach_action stage (DeployStacks d) st =
     (case bind d stage [] st of
        Inl e \<Rightarrow> Inl e
      | Inr (d', _, st') \<Rightarrow> Inr (DeployStacks d', st'))"
| "attach_action stage a st = Inr (a, st)"

fun attach_actions :: "IStage \<Rightarrow> Action list \<Rightarrow> Store \<Rightarrow> error + (Action list \<times> Store)" where
  "attach_actions stage [] st = Inr ([], st)"
| "attach_actions stage (a # as) st =
     (case attach_action stage a st of
        Inl e \<Rightarrow> Inl e
      | Inr (a', st') \<Rightarrow>
          (case attach_actions stage as st' of
             Inl e \<Rightarrow> Inl e
           | Inr (as', st'') \<Rightarrow> Inr (a' # as', st'')))"

fun attach_stages :: "Stage list \<Rightarrow> Store \<Rightarrow> error + (Stage list \<times> Store)" where
  "attach_stages [] st = Inr ([], st)"
| "attach_stages (s # ss) st =
     (case attach_actions (stage_name s) (actions s) st of
        Inl e \<Rightarrow> Inl e
      | Inr (as', st') \<Rightarrow>
          (case attach_stages ss st' of
             Inl e \<Rightarrow> Inl e
           | Inr (ss', st'') \<Rightarrow> Inr (s\<lparr>actions := as'\<rparr> # ss', st'')))"

text \<open>
  What a run of the \<^verbatim>\<open>Pipeline\<close> constructor leaves behind: the scope it was given,
  the constructs created with the pipeline itself as scope, in creation order, and the
  store.
\<close>

record 'env Outcome =
  enclosing :: Scope
  children :: "'env Construct list"
  heap :: Store

definition sourcePrefix :: string where
  "sourcePrefix = ''https://github.com/''"

text \<open>
  The constructor takes the scope, the id, the properties and the store, and returns what
  it leaves behind together with \<open>Inr ()\<close>, or with the error thrown.
  \<^verbatim>\<open>super(scope, id)\<close> comes first and registers the pipeline in its scope. The
  pipeline itself is a new scope, and the seven ids created in it are distinct literals,
  so none of their registrations can throw.
\<close>

definition Pipeline_constructor ::
  "Scope \<Rightarrow> string \<Rightarrow> 'env PipelineProps \<Rightarrow> Store \<Rightarrow> 'env Outcome \<times> (error + unit)" where
  "Pipeline_constructor scope ident props st =
     (case Construct_constructor scope ident of
        Inl e \<Rightarrow> (\<lparr>enclosing = scope, children = [], heap = st\<rparr>, Inl e)
      | Inr scope0 \<Rightarrow>
        if \<not> startsWith (source props) sourcePrefix
        then (\<lparr>enclosing = scope0, children = [], heap = st\<rparr>,
              Inl (Error ([CHR 0x22] @ ''source'' @ [CHR 0x22] @ '' must start with '' @ sourcePrefix)))
        else
          let src = substr (source props) (length sourcePrefix);
              parts = split_str src CHR ''/'';
              owner = element parts 0;
              repo = element parts 1;
              children1 = [SecretString ''OauthTokenSecret'' (oauthSecret props)];
              version = or_default (pp_version props) ''latest'';
              branch = branch props;
              sourceAction =
                \<lparr> gh_actionName = ''Pull'',
                  owner = owner,
                  repo = repo,
                  oauthToken = StringValueOf ''OauthTokenSecret'',
                  outputArtifactName = ''Source'',
                  gh_branch = branch \<rparr>;
              children2 = children1 @ [BuildAction ''BuildDeploy''
                       \<lparr> sourceArtifact = outputArtifact sourceAction,
                         ba_workdir = workdir props,
                         ba_build = build props,
                         ba_environment = environment props,
                         ba_install = install props,
                         ba_version = pp_version props \<rparr>];
              buildAction = BuildActionOf ''BuildDeploy'';
              children3 = children2 @ [Bucket ''Publish'' True];
              objectKey = ''cloud-assembly.zip'';
              publishAction =
                \<lparr> pda_inputArtifact = OutputArtifactOf ''BuildDeploy'',
                  pda_actionName = ''Publish'',
                  pda_bucket = ''Publish'',
                  pda_objectKey = objectKey,
                  pda_extract = False \<rparr>
          in case DeployAction_constructor
                    \<lparr> dp_stacks = pp_stacks props,
                      dp_exclusively = pp_exclusively props,
                      dp_admin = True,
                      dp_version = pp_version props,
                      dp_assembly = OutputArtifactOf ''BuildDeploy'' \<rparr> of
               Inl e \<Rightarrow> (\<lparr>enclosing = scope0, children = children3, heap = st\<rparr>, Inl e)
             | Inr deployAction \<Rightarrow>
               (case attach_stages
                       [ \<lparr>stage_name = ''Source'', actions = [SourceAction sourceAction]\<rparr>,
                         \<lparr>stage_name = ''Build'', actions = [buildAction]\<rparr>,
                         \<lparr>stage_name = ''Deploy'', actions = [DeployStacks deployAction]\<rparr>,
                         \<lparr>stage_name = ''Publish'', actions = [PublishAction publishAction]\<rparr> ]
                       st of
                  Inl e \<Rightarrow> (\<lparr>enclosing = scope0, children = children3, heap = st\<rparr>, Inl e)
                | Inr (stages, st') \<Rightarrow>
                  let children4 = children3 @ [CodePipeline ''Bootstrap'' True stages];
                      exportPrefix = ''cdk-pipeline:'' @ ident;
                      children5 = children4 @ [CfnOutput ''PublishBucketName''
                                    (BucketNameOf ''Publish'') (exportPrefix @ ''-bucket'')];
                      children6 = children5 @ [CfnOutput ''PublishObjectKey''
                                    (Literal objectKey) (exportPrefix @ ''-object-key'')];
                      children7 = children6 @ [CfnOutput ''ToolchainVersion''
                                    (Literal version) (exportPrefix @ ''-toolchain-version'')]
                  in (\<lparr>enclosing = scope0, children = children7, heap = st'\<rparr>, Inr ())))"

text \<open>Reading what was created: the stages of the pipelines, the exports.\<close>

fun stages_of :: "'env Construct list \<Rightarrow> Stage list" where
  "stages_of [] = []"
| "stages_of (CodePipeline _ _ ss # cs) = ss @ stages_of cs"
| "stages_of (_ # cs) = stages_of cs"

fun exports_of :: "'env Construct list \<Rightarrow> (string \<times> Value) list" where
  "exports_of [] = []"
| "exports_of (CfnOutput _ v e # cs) = (e, v) # exports_of cs"
| "exports_of (_ # cs) = exports_of cs"

definition source_actions :: "Stage list \<Rightarrow> GitHubSourceAction list" where
  "source_actions ss =
     concat (map (\<lambda>s. concat (map (\<lambda>a. case a of SourceAction g \<Rightarrow> [g] | _ \<Rightarrow> []) (actions s))) ss)"

definition deploy_actions :: "Stage list \<Rightarrow> DeployAction list" where
  "deploy_actions ss =
     concat (map (\<lambda>s. concat (map (\<lambda>a. case a of DeployStacks d \<Rightarrow> [d] | _ \<Rightarrow> []) (actions s))) ss)"


section \<open>The specification's wording\<close>

text \<open>
  Strings joined by a separator, as the specification describes a command's stack list
  (separated by a space) and an action's name (by a dash).
\<close>

fun spec_joined :: "string \<Rightarrow> string list \<Rightarrow> string" where
  "spec_joined sep [] = []"
| "spec_joined sep [x] = x"
| "spec_joined sep (x # y # ys) = x @ sep @ spec_joined sep (y # ys)"

text \<open>A string contains a token when the token starts at some position of it.\<close>

fun contains :: "string \<Rightarrow> string \<Rightarrow> bool" where
  "contains [] t = (t = [])"
| "contains (c # cs) t = (startsWith (c # cs) t \<or> contains cs t)"

text \<open>The part of a string before its first \<open>/\<close>, and the entire part after it.\<close>

definition before_first_slash :: "string \<Rightarrow> string" where
  "before_first_slash s = takeWhile (\<lambda>c. c \<noteq> CHR ''/'') s"

definition after_first_slash :: "string \<Rightarrow> string" where
  "after_first_slash s = tl (dropWhile (\<lambda>c. c \<noteq> CHR ''/'') s)"


section \<open>Inputs used in the examples\<close>

text \<open>A pipeline configuration with the given source URL and every optional field absent.\<close>

definition props_with_source :: "string \<Rightarrow> unit PipelineProps" where
  "props_with_source url =
     \<lparr> oauthSecret = ''github-token'', source = url, branch = None, workdir = None,
       pp_stacks = None, environment = None, install = None, build = None,
       pp_exclusively = None, pp_admin = None, pp_version = None \<rparr>"

text \<open>
  A deploy-action configuration with the given stack list and admin flag and the other
  optional fields absent, and the empty store.
\<close>

definition props_with_stacks :: "string list option \<Rightarrow> bool \<Rightarrow> DeployActionProps" where
  "props_with_stacks ss adm =
     \<lparr> dp_stacks = ss, dp_exclusively = None, dp_admin = adm, dp_version = None,
       dp_assembly = Artifact ''Assembly'' \<rparr>"

definition empty_store :: Store where
  "empty_store = \<lparr>projects = [], buildActions = []\<rparr>"


section \<open>Strings: joining and splitting\<close>

lemma join_from_concat: "join_from sep r xs = r @ concat (map (\<lambda>x. sep @ x) xs)"
  by (induction xs arbitrary: r) simp_all

lemma spec_joined_Cons: "spec_joined sep (x # xs) = x @ concat (map (\<lambda>y. sep @ y) xs)"
  by (induction xs arbitrary: x) simp_all

lemma join_spec_joined: "join xs sep = spec_joined sep xs"
  by (cases xs) (simp_all add: join_def join_from_concat spec_joined_Cons)






lemma split_from_takeWhile:
  "split_from sep cur s =
     (cur @ takeWhile (\<lambda>c. c \<noteq> sep) s) #
       (if sep \<in> set s then split_from sep [] (tl (dropWhile (\<lambda>c. c \<noteq> sep) s)) else [])"
  by (induction s arbitrary: cur) simp_all

lemma element_split_0: "element (split_str s sep) 0 = Some (takeWhile (\<lambda>c. c \<noteq> sep) s)"
  by (subst split_str_def, subst split_from_takeWhile) (simp add: element_def)

lemma element_split_1:
  "element (split_str s sep) (Suc 0) =
     (if sep \<in> set s
      then Some (takeWhile (\<lambda>c. c \<noteq> sep) (tl (dropWhile (\<lambda>c. c \<noteq> sep) s)))
      else None)"
proof -
  let ?P = "\<lambda>c. c \<noteq> sep"
  let ?t = "tl (dropWhile ?P s)"
  have 1: "split_from sep [] s =
             takeWhile ?P s # (if sep \<in> set s then split_from sep [] ?t else [])"
    using split_from_takeWhile [of sep "[]" s] by simp
  obtain r where 2: "split_from sep [] ?t = takeWhile ?P ?t # r"
    using split_from_takeWhile [of sep "[]" ?t] by simp
  show ?thesis
    by (simp add: split_str_def element_def 1 2)
qed


section \<open>Names the library accepts\<close>

lemma validName_all: "validName ''all''"
  by (simp add: validName_def validNameChar_def)

lemma validName_empty: "\<not> validName []"
  by (simp add: validName_def)




section \<open>The deploy action: construction and \<^verbatim>\<open>bind\<close>\<close>

lemma DeployAction_constructor_Inr:
  assumes "DeployAction_constructor props = Inr a"
  shows "validName (join (case dp_stacks props of Some ss \<Rightarrow> ss | None \<Rightarrow> [''all'']) ''-'')"
    and "a = \<lparr> category = ''Build'',
             provider = ''CodeBuild'',
             artifactBounds = \<lparr>minInputs = 1, maxInputs = 1, minOutputs = 0, maxOutputs = 0\<rparr>,
             actionName = join (case dp_stacks props of Some ss \<Rightarrow> ss | None \<Rightarrow> [''all'']) ''-'',
             inputArtifacts = [],
             da_stacks = (case dp_stacks props of Some ss \<Rightarrow> join ss '' '' | None \<Rightarrow> []),
             priv_buildAction = None,
             priv_project = None,
             da_admin = dp_admin props,
             toolchainVersion = or_default (dp_version props) ''latest'',
             da_assembly = dp_assembly props,
             da_exclusively = (case dp_exclusively props of None \<Rightarrow> False | Some _ \<Rightarrow> True) \<rparr>"
  using assms by (auto simp: DeployAction_constructor_def Let_def split: if_splits)

lemma DeployAction_constructor_invalid:
  "\<not> validName (join (case dp_stacks props of Some ss \<Rightarrow> ss | None \<Rightarrow> [''all'']) ''-'') \<Longrightarrow>
   DeployAction_constructor props =
     Inl (ActionNameInvalid (join (case dp_stacks props of Some ss \<Rightarrow> ss | None \<Rightarrow> [''all'']) ''-''))"
  by (simp add: DeployAction_constructor_def Let_def)

lemma DeployAction_constructor_valid:
  "validName (join (case dp_stacks props of Some ss \<Rightarrow> ss | None \<Rightarrow> [''all'']) ''-'') \<Longrightarrow>
   \<exists>a. DeployAction_constructor props = Inr a"
  by (simp add: DeployAction_constructor_def Let_def)

text \<open>
  \<^verbatim>\<open>bind\<close> throws exactly when the scope already holds a child named
  \<^verbatim>\<open>DeployStackProject\<close>. Otherwise it registers the project in the scope, adds one
  project and one build action to the store and sets the two private fields.
\<close>

lemma bind_result:
  "bind this stage scope st =
     (if ''DeployStackProject'' \<in> set scope then Inl (ConstructIdTaken ''DeployStackProject'')
      else Inr
        (this\<lparr>inputArtifacts :=
                 (if da_assembly this \<in> set (inputArtifacts this) then inputArtifacts this
                  else inputArtifacts this @ [da_assembly this]),
               priv_project := Some (length (projects st)),
               priv_buildAction := Some (length (buildActions st))\<rparr>,
         scope @ [''DeployStackProject''],
         \<lparr>projects = projects st @
            [\<lparr> project_id = ''DeployStackProject'',
               buildImage = ''UBUNTU_14_04_NODEJS_10_1_0'',
               buildSpec_version = ''0.2'',
               install_commands = [''npx npm@latest ci''],
               build_commands =
                 [deploy_command (toolchainVersion this)
                    (if da_exclusively this then ''--exclusively'' else []) (da_stacks this)],
               rolePolicy =
                 (if da_admin this then [\<lparr>ps_resources = [''*''], ps_actions = [''*'']\<rparr>]
                  else []) \<rparr>],
          buildActions = buildActions st @
            [\<lparr> pba_actionName = actionName this,
               pba_inputArtifact = da_assembly this,
               pba_project = length (projects st),
               pba_bound = Some stage \<rparr>]\<rparr>))"
  by (simp add: bind_def Let_def Construct_constructor_def addInputArtifact_def
      addToRolePolicy_def project_def Project_addToRolePolicy_def
      PipelineBuildAction_bind_def modify_def PolicyStatement_new_def addAllResources_def
      addAction_def nth_append)

lemma bind_occupied_scope:
  "''DeployStackProject'' \<in> set scope \<Longrightarrow>
   bind this stage scope st = Inl (ConstructIdTaken ''DeployStackProject'')"
  by (simp add: bind_result)

lemma exclusively_stored:
  "DeployAction_constructor props = Inr a \<Longrightarrow> da_exclusively a = (dp_exclusively props \<noteq> None)"
  by (auto simp: DeployAction_constructor_def Let_def split: if_splits option.splits)

text \<open>
  Reads and \<^verbatim>\<open>addToRolePolicy\<close> calls on a bound action all succeed and leave the
  action, the build actions and the number of projects as they are.
\<close>

lemma do_calls_bound:
  "priv_project this = Some p \<Longrightarrow> priv_buildAction this = Some b \<Longrightarrow>
   \<exists>st'. do_calls cs this st = Inr (this, st') \<and>
         length (projects st') = length (projects st) \<and>
         buildActions st' = buildActions st"
proof (induction cs arbitrary: st)
  case Nil
  then show ?case by simp
next
  case (Cons c cs)
  obtain st1 where 1: "do_call c this st = Inr (this, st1)"
    and 2: "length (projects st1) = length (projects st)"
    and 3: "buildActions st1 = buildActions st"
    using Cons.prems
    by (cases c)
      (simp_all add: project_def buildAction_def configuration_def addToRolePolicy_def
        Project_addToRolePolicy_def modify_def)
  from Cons.IH [OF Cons.prems, of st1] obtain st' where
    "do_calls cs this st1 = Inr (this, st')"
    "length (projects st') = length (projects st1)"
    "buildActions st' = buildActions st1"
    by blast
  with 1 2 3 show ?case by simp
qed

text \<open>
  \<^bold>\<open>C1.\<close> The generated deploy command should contain \<^verbatim>\<open>--exclusively\<close> exactly when
  the caller set the flag to true, and so not when the flag is explicitly false. The code
  does otherwise: for the configuration with no stacks, no version, and the exclusively
  flag explicitly \<^verbatim>\<open>false\<close>, construction succeeds, \<^verbatim>\<open>bind\<close> in an empty scope
  succeeds, and the one build command of the project it creates is the one below, which
  contains the token.
\<close>

theorem explicit_false_exclusively_emits_flag:
  "(case DeployAction_constructor
        \<lparr>dp_stacks = None, dp_exclusively = Some False, dp_admin = False, dp_version = None,
         dp_assembly = Artifact ''Assembly''\<rparr> of
      Inl e \<Rightarrow> False
    | Inr a \<Rightarrow>
        (case bind a ''Deploy'' [] \<lparr>projects = [], buildActions = []\<rparr> of
           Inl e \<Rightarrow> False
         | Inr (this', scope', st') \<Rightarrow>
             map build_commands (projects st') =
               [[''npx --package aws-cdk@latest -- cdk deploy --exclusively --require-approval=never '']]
             \<and> contains (concat (concat (map build_commands (projects st')))) ''--exclusively''))"
  by (simp add: bind_result deploy_command_def DeployAction_constructor_def Let_def
      or_default_def startsWith_def join_def validName_def validNameChar_def)

text \<open>
  \<^bold>\<open>C4.\<close> On a deploy action as its constructor leaves it, reading the project, the
  bound action or the configuration, and calling \<^verbatim>\<open>addToRolePolicy\<close>, each fail
  with the "not bound" error. When \<^verbatim>\<open>bind\<close> on it has succeeded, the project and
  the bound action read as the references of the two objects \<^verbatim>\<open>bind\<close> has put into
  the store (the bound action wrapping that project) and the configuration reads as that
  of the bound action; and after any sequence of further reads and
  \<^verbatim>\<open>addToRolePolicy\<close> calls, none of which fails, the action is the same, so the
  three read the same references again, which still point into the store.
  \<^verbatim>\<open>bind\<close> itself throws when the scope already holds a child named
  \<^verbatim>\<open>DeployStackProject\<close>; the action is then as it was.
\<close>

theorem unbound_reads_fail_bound_reads_stay:
  assumes "DeployAction_constructor props = Inr a"
  shows "project a = Inl (Error ''Action not bound to pipeline'') \<and>
         buildAction a = Inl (Error ''Action not bound to pipeline'') \<and>
         configuration a = Inl (Error ''Action not bound to pipeline'') \<and>
         addToRolePolicy a statement st0 = Inl (Error ''Action not bound to pipeline'') \<and>
         (bind a stage scope st = Inr (a', scope', st') \<longrightarrow>
            project a' = Inr (length (projects st)) \<and>
            length (projects st) < length (projects st') \<and>
            buildAction a' = Inr (length (buildActions st)) \<and>
            length (buildActions st) < length (buildActions st') \<and>
            configuration a' = Inr (ConfigurationOf (length (buildActions st))) \<and>
            pba_project (buildActions st' ! length (buildActions st)) = length (projects st) \<and>
            (\<exists>a'' st''.
               do_calls cs a' st' = Inr (a'', st'') \<and>
               project a'' = project a' \<and>
               buildAction a'' = buildAction a' \<and>
               configuration a'' = configuration a' \<and>
               length (projects st'') = length (projects st') \<and>
               buildActions st'' = buildActions st'))"
proof -
  have unbound: "priv_project a = None" "priv_buildAction a = None"
    using DeployAction_constructor_Inr(2) [OF assms] by simp_all
  have before: "project a = Inl (Error ''Action not bound to pipeline'')"
    "buildAction a = Inl (Error ''Action not bound to pipeline'')"
    "configuration a = Inl (Error ''Action not bound to pipeline'')"
    "addToRolePolicy a statement st0 = Inl (Error ''Action not bound to pipeline'')"
    using unbound
    by (simp_all add: project_def buildAction_def configuration_def addToRolePolicy_def)
  have after: "project a' = Inr (length (projects st)) \<and>
      length (projects st) < length (projects st') \<and>
      buildAction a' = Inr (length (buildActions st)) \<and>
      length (buildActions st) < length (buildActions st') \<and>
      configuration a' = Inr (ConfigurationOf (length (buildActions st))) \<and>
      pba_project (buildActions st' ! length (buildActions st)) = length (projects st) \<and>
      (\<exists>a'' st''.
         do_calls cs a' st' = Inr (a'', st'') \<and>
         project a'' = project a' \<and>
         buildAction a'' = buildAction a' \<and>
         configuration a'' = configuration a' \<and>
         length (projects st'') = length (projects st') \<and>
         buildActions st'' = buildActions st')"
    if b: "bind a stage scope st = Inr (a', scope', st')"
  proof -
    have free: "''DeployStackProject'' \<notin> set scope"
      using b by (auto simp: bind_result split: if_splits)
    have bound: "priv_project a' = Some (length (projects st))"
      "priv_buildAction a' = Some (length (buildActions st))"
      using b free by (auto simp: bind_result)
    have store: "length (projects st') = Suc (length (projects st))"
      "length (buildActions st') = Suc (length (buildActions st))"
      "pba_project (buildActions st' ! length (buildActions st)) = length (projects st)"
      using b free by (auto simp: bind_result)
    obtain st'' where later: "do_calls cs a' st' = Inr (a', st'')"
      "length (projects st'') = length (projects st')" "buildActions st'' = buildActions st'"
      using do_calls_bound [OF bound] by blast
    show ?thesis
      using bound store later
      by (simp add: project_def buildAction_def configuration_def)
  qed
  show ?thesis
    using before after by blast
qed

theorem unbound_reads_fail_bound_reads_stay_witness:
  "\<exists>a a' scope' st'.
     DeployAction_constructor (props_with_stacks None True) = Inr a \<and>
     bind a ''Deploy'' [] empty_store = Inr (a', scope', st') \<and>
     project a = Inl (Error ''Action not bound to pipeline'') \<and>
     project a' = Inr 0 \<and>
     buildAction a' = Inr 0 \<and>
     (\<exists>a'' st''.
        do_calls [ReadProject, AddToRolePolicy PolicyStatement_new, ReadBuildAction,
                  ReadConfiguration, ReadProject] a' st' = Inr (a'', st'') \<and>
        project a'' = Inr 0 \<and> buildAction a'' = Inr 0)"
proof -
  obtain a where a: "DeployAction_constructor (props_with_stacks None True) = Inr a"
    using DeployAction_constructor_valid [of "props_with_stacks None True"]
    by (auto simp: props_with_stacks_def join_def validName_all)
  obtain a' scope' st' where b: "bind a ''Deploy'' [] empty_store = Inr (a', scope', st')"
    by (simp add: bind_result)
  let ?cs = "[ReadProject, AddToRolePolicy PolicyStatement_new, ReadBuildAction,
              ReadConfiguration, ReadProject]"
  have t: "project a = Inl (Error ''Action not bound to pipeline'')"
    "project a' = Inr (length (projects empty_store))"
    "buildAction a' = Inr (length (buildActions empty_store))"
    "\<exists>a'' st''. do_calls ?cs a' st' = Inr (a'', st'') \<and>
        project a'' = project a' \<and> buildAction a'' = buildAction a'"
    using b unbound_reads_fail_bound_reads_stay [OF a,
        where statement = PolicyStatement_new and st0 = empty_store and stage = "''Deploy''"
          and scope = "[]" and st = empty_store and a' = a' and scope' = scope' and st' = st'
          and cs = ?cs]
    by blast+
  have z: "length (projects empty_store) = 0" "length (buildActions empty_store) = 0"
    by (simp_all add: empty_store_def)
  from t(4) obtain a'' st'' where c: "do_calls ?cs a' st' = Inr (a'', st'')"
    "project a'' = project a'" "buildAction a'' = buildAction a'"
    by blast
  have "project a' = Inr 0" "buildAction a' = Inr 0" "project a'' = Inr 0" "buildAction a'' = Inr 0"
    using t(2,3) c(2,3) z by simp_all
  with a b t(1) c(1) show ?thesis
    by blast
qed



text \<open>
  \<^bold>\<open>C9.\<close> When \<^verbatim>\<open>bind\<close> on a deploy action has succeeded, it has added one
  project to the store and left the earlier projects as they were, and the statements it
  has handed to the new project's execution role are exactly one statement with all
  resources and the action \<^verbatim>\<open>*\<close> when the admin flag is true, and none when it is
  false.
\<close>

theorem bind_admin_policy:
  assumes "bind this stage scope st = Inr (this', scope', st')"
  shows "project this' = Inr (length (projects st)) \<and>
         length (projects st') = Suc (length (projects st)) \<and>
         take (length (projects st)) (projects st') = projects st \<and>
         rolePolicy (projects st' ! length (projects st)) =
           (if da_admin this then [\<lparr>ps_resources = [''*''], ps_actions = [''*'']\<rparr>] else [])"
proof -
  have "''DeployStackProject'' \<notin> set scope"
    using assms by (auto simp: bind_result split: if_splits)
  then show ?thesis
    using assms by (auto simp: bind_result project_def)
qed

theorem bind_admin_policy_witness:
  "(\<exists>a a' scope' st'.
      DeployAction_constructor (props_with_stacks None True) = Inr a \<and>
      bind a ''Deploy'' [] empty_store = Inr (a', scope', st') \<and>
      map rolePolicy (projects st') = [[\<lparr>ps_resources = [''*''], ps_actions = [''*'']\<rparr>]]) \<and>
   (\<exists>a a' scope' st'.
      DeployAction_constructor (props_with_stacks None False) = Inr a \<and>
      bind a ''Deploy'' [] empty_store = Inr (a', scope', st') \<and>
      map rolePolicy (projects st') = [[]])"
proof -
  have "\<exists>a a' scope' st'.
      DeployAction_constructor (props_with_stacks None adm) = Inr a \<and>
      bind a ''Deploy'' [] empty_store = Inr (a', scope', st') \<and>
      map rolePolicy (projects st') =
        [if adm then [\<lparr>ps_resources = [''*''], ps_actions = [''*'']\<rparr>] else []]" for adm
  proof -
    obtain a where a: "DeployAction_constructor (props_with_stacks None adm) = Inr a"
      using DeployAction_constructor_valid [of "props_with_stacks None adm"]
      by (auto simp: props_with_stacks_def join_def validName_all)
    obtain a' scope' st' where b: "bind a ''Deploy'' [] empty_store = Inr (a', scope', st')"
      by (simp add: bind_result)
    have adm: "da_admin a = adm"
      using DeployAction_constructor_Inr(2) [OF a] by (simp add: props_with_stacks_def)
    have "length (projects st') = 1 \<and>
          rolePolicy (projects st' ! 0) =
            (if adm then [\<lparr>ps_resources = [''*''], ps_actions = [''*'']\<rparr>] else [])"
      using bind_admin_policy [OF b] adm by (simp add: empty_store_def)
    then have "map rolePolicy (projects st') =
        [if adm then [\<lparr>ps_resources = [''*''], ps_actions = [''*'']\<rparr>] else []]"
      by (cases "projects st'") auto
    with a b show ?thesis by auto
  qed
  from this [of True] this [of False] show ?thesis by simp
qed

text \<open>
  \<^bold>\<open>C10\<close>, as the claim states it: an explicitly empty stack list yields an action with
  the empty name. It yields no action: the joined name is empty, the base constructor
  rejects it, and construction fails.
\<close>

theorem empty_stack_list_yields_no_action:
  "DeployAction_constructor (props_with_stacks (Some []) True) = Inl (ActionNameInvalid [])"
  by (simp add: DeployAction_constructor_def Let_def props_with_stacks_def join_def
      validName_def)

text \<open>
  \<^bold>\<open>C10\<close>, amended. The name of a constructed action is the stack names joined with
  a dash when a stack list was supplied, and \<^verbatim>\<open>all\<close> when it was absent. With the
  stack list absent construction always succeeds. With an explicitly empty stack list the
  joined name is empty, not \<^verbatim>\<open>all\<close>, and construction fails on it.
\<close>

theorem actionName_joined:
  "(DeployAction_constructor props = Inr a \<longrightarrow>
      actionName a =
        (case dp_stacks props of None \<Rightarrow> ''all'' | Some ss \<Rightarrow> spec_joined ''-'' ss)) \<and>
   (\<exists>a. DeployAction_constructor (props\<lparr>dp_stacks := None\<rparr>) = Inr a \<and> actionName a = ''all'') \<and>
   DeployAction_constructor (props\<lparr>dp_stacks := Some []\<rparr>) = Inl (ActionNameInvalid [])"
  by (auto simp: DeployAction_constructor_def Let_def join_spec_joined validName_all
      validName_empty split: option.splits if_splits)

theorem actionName_joined_witness:
  "\<exists>a. DeployAction_constructor (props_with_stacks (Some [''Api'', ''Web'']) True) = Inr a \<and>
       actionName a = ''Api-Web''"
proof -
  obtain a where a: "DeployAction_constructor (props_with_stacks (Some [''Api'', ''Web'']) True) = Inr a"
    using DeployAction_constructor_valid [of "props_with_stacks (Some [''Api'', ''Web'']) True"]
    by (auto simp: props_with_stacks_def join_def validName_def validNameChar_def)
  show ?thesis
    using a actionName_joined [of "props_with_stacks (Some [''Api'', ''Web'']) True" a]
    by (simp add: props_with_stacks_def)
qed


section \<open>The pipeline: what the constructor leaves behind\<close>

text \<open>
  A successful run: the id was accepted, the source starts with the prefix, the deploy
  action was constructed and then bound in a scope of its own when the library attached
  it; the pipeline holds seven constructs.
\<close>

lemma Pipeline_constructor_Inr:
  assumes "Pipeline_constructor scope ident props st = (out, Inr ())"
  shows "\<exists>a a' sc.
     ident \<noteq> [] \<and> ident \<notin> set scope \<and>
     startsWith (source props) sourcePrefix \<and>
     DeployAction_constructor
       \<lparr> dp_stacks = pp_stacks props,
         dp_exclusively = pp_exclusively props,
         dp_admin = True,
         dp_version = pp_version props,
         dp_assembly = OutputArtifactOf ''BuildDeploy'' \<rparr> = Inr a \<and>
     bind a ''Deploy'' [] st = Inr (a', sc, heap out) \<and>
     enclosing out = scope @ [ident] \<and>
     children out =
       [ SecretString ''OauthTokenSecret'' (oauthSecret props),
         BuildAction ''BuildDeploy''
            \<lparr> sourceArtifact = Artifact ''Source'',
              ba_workdir = workdir props,
              ba_build = build props,
              ba_environment = environment props,
              ba_install = install props,
              ba_version = pp_version props \<rparr>,
         Bucket ''Publish'' True,
         CodePipeline ''Bootstrap'' True
            [ \<lparr>stage_name = ''Source'', actions = [SourceAction
                 \<lparr> gh_actionName = ''Pull'',
                   owner = element (split_str (substr (source props) (length sourcePrefix)) CHR ''/'') 0,
                   repo = element (split_str (substr (source props) (length sourcePrefix)) CHR ''/'') (Suc 0),
                   oauthToken = StringValueOf ''OauthTokenSecret'',
                   outputArtifactName = ''Source'',
                   gh_branch = branch props \<rparr>]\<rparr>,
              \<lparr>stage_name = ''Build'', actions = [BuildActionOf ''BuildDeploy'']\<rparr>,
              \<lparr>stage_name = ''Deploy'', actions = [DeployStacks a']\<rparr>,
              \<lparr>stage_name = ''Publish'', actions = [PublishAction
                 \<lparr> pda_inputArtifact = OutputArtifactOf ''BuildDeploy'',
                   pda_actionName = ''Publish'',
                   pda_bucket = ''Publish'',
                   pda_objectKey = ''cloud-assembly.zip'',
                   pda_extract = False \<rparr>]\<rparr> ],
         CfnOutput ''PublishBucketName'' (BucketNameOf ''Publish'')
            (''cdk-pipeline:'' @ ident @ ''-bucket''),
         CfnOutput ''PublishObjectKey'' (Literal ''cloud-assembly.zip'')
            (''cdk-pipeline:'' @ ident @ ''-object-key''),
         CfnOutput ''ToolchainVersion'' (Literal (or_default (pp_version props) ''latest''))
            (''cdk-pipeline:'' @ ident @ ''-toolchain-version'') ]"
  using assms
  by (auto simp: Pipeline_constructor_def Construct_constructor_def Let_def outputArtifact_def
      split: if_splits sum.splits prod.splits)

text \<open>
  The constructor succeeds exactly when the id is not empty and not taken in the scope,
  the source starts with the prefix, and the library accepts the deploy action's name.
\<close>

lemma Pipeline_constructor_succeeds:
  assumes "ident \<noteq> []" and "ident \<notin> set scope"
    and "startsWith (source props) sourcePrefix"
    and "validName (join (case pp_stacks props of Some ss \<Rightarrow> ss | None \<Rightarrow> [''all'']) ''-'')"
  shows "\<exists>out. Pipeline_constructor scope ident props st = (out, Inr ())"
proof -
  obtain a where "DeployAction_constructor
       \<lparr> dp_stacks = pp_stacks props,
         dp_exclusively = pp_exclusively props,
         dp_admin = True,
         dp_version = pp_version props,
         dp_assembly = OutputArtifactOf ''BuildDeploy'' \<rparr> = Inr a"
    using assms(4) DeployAction_constructor_valid
      [of "\<lparr> dp_stacks = pp_stacks props, dp_exclusively = pp_exclusively props,
             dp_admin = True, dp_version = pp_version props,
             dp_assembly = OutputArtifactOf ''BuildDeploy'' \<rparr>"]
    by auto
  then show ?thesis
    using assms(1-3)
    by (simp add: Pipeline_constructor_def Construct_constructor_def Let_def bind_result)
qed

lemma example_pipeline_succeeds:
  "\<exists>out. Pipeline_constructor [] ''Delivery''
           (props_with_source (''https://github.com/'' @ rest)\<lparr>pp_admin := adm\<rparr>) empty_store
         = (out, Inr ())"
  by (rule Pipeline_constructor_succeeds)
    (simp_all add: props_with_source_def startsWith_def sourcePrefix_def join_def validName_all)

text \<open>
  With an explicitly empty stack list the deploy action's name is empty, its construction
  throws, and so does the pipeline's, with the secret, the build action and the bucket
  created and no pipeline, no export.
\<close>

lemma empty_stack_list_fails_pipeline:
  "Pipeline_constructor [] ''Delivery''
      ((props_with_source ''https://github.com/acme/widgets'')\<lparr>pp_stacks := Some []\<rparr>)
      empty_store = (out, r) \<Longrightarrow>
   r = Inl (ActionNameInvalid []) \<and> stages_of (children out) = [] \<and>
   exports_of (children out) = [] \<and> length (children out) = 3"
  by (auto simp: Pipeline_constructor_def Construct_constructor_def Let_def
      props_with_source_def startsWith_def sourcePrefix_def DeployAction_constructor_def
      join_def validName_def)

text \<open>
  The ids the pipeline creates in itself are distinct and not empty: none of the
  registrations in its own scope can have failed.
\<close>

lemma Pipeline_children_ids:
  assumes "Pipeline_constructor scope ident props st = (out, Inr ())"
  shows "distinct (map construct_id (children out)) \<and> [] \<notin> set (map construct_id (children out))"
  using Pipeline_constructor_Inr [OF assms] by auto

text \<open>
  \<^bold>\<open>C2\<close>, as the claim states it: for a source URL without the prefix, construction
  raises the configuration error before any other effect. Two runs on such a URL say
  otherwise. With an id already taken in the scope, the error raised is the base
  constructor's. With a fresh id, the configuration error is raised, and by then the scope
  holds the pipeline's id: the base constructor has registered it.
\<close>

theorem bad_source_other_error_and_effect:
  "Pipeline_constructor [''Delivery''] ''Delivery''
      (props_with_source ''git@github.com:acme/widgets.git'') empty_store =
     (\<lparr>enclosing = [''Delivery''], children = [], heap = empty_store\<rparr>,
      Inl (ConstructIdTaken ''Delivery'')) \<and>
   Pipeline_constructor [] ''Delivery''
      (props_with_source ''git@github.com:acme/widgets.git'') empty_store =
     (\<lparr>enclosing = [''Delivery''], children = [], heap = empty_store\<rparr>,
      Inl (Error ([CHR 0x22] @ ''source'' @ [CHR 0x22]
                    @ '' must start with https://github.com/'')))"
  by (simp add: Pipeline_constructor_def Construct_constructor_def props_with_source_def
      startsWith_def sourcePrefix_def)

text \<open>
  \<^bold>\<open>C2\<close>, amended. For a source URL that does not start with
  \<^verbatim>\<open>https://github.com/\<close>, construction fails and creates nothing in the pipeline
  and nothing in the store. When the id is empty or already taken in the scope, the error
  is the base constructor's and the scope is as it was. Otherwise the error is the one
  with the message \<^verbatim>\<open>"source" must start with https://github.com/\<close>, raised when the
  base constructor has registered the pipeline's id in the scope and nothing else has
  been done.
\<close>

theorem bad_source_fails_first:
  "\<not> startsWith (source props) ''https://github.com/'' \<Longrightarrow>
   Pipeline_constructor scope ident props st =
     (if ident = []
      then (\<lparr>enclosing = scope, children = [], heap = st\<rparr>, Inl ConstructIdEmpty)
      else if ident \<in> set scope
      then (\<lparr>enclosing = scope, children = [], heap = st\<rparr>, Inl (ConstructIdTaken ident))
      else (\<lparr>enclosing = scope @ [ident], children = [], heap = st\<rparr>,
            Inl (Error ([CHR 0x22] @ ''source'' @ [CHR 0x22]
                          @ '' must start with https://github.com/''))))"
  by (simp add: Pipeline_constructor_def Construct_constructor_def sourcePrefix_def)

theorem bad_source_fails_first_witness:
  "\<not> startsWith (source (props_with_source ''git@github.com:acme/widgets.git''))
        ''https://github.com/'' \<and>
   Pipeline_constructor [''Website''] ''Delivery''
       (props_with_source ''git@github.com:acme/widgets.git'') empty_store =
     (\<lparr>enclosing = [''Website'', ''Delivery''], children = [], heap = empty_store\<rparr>,
      Inl (Error ([CHR 0x22] @ ''source'' @ [CHR 0x22]
                    @ '' must start with https://github.com/'')))"
proof -
  have h: "\<not> startsWith (source (props_with_source ''git@github.com:acme/widgets.git''))
               ''https://github.com/''"
    by (simp add: props_with_source_def startsWith_def)
  show ?thesis
    using h bad_source_fails_first [OF h, of "[''Website'']" "''Delivery''" empty_store]
    by simp
qed

text \<open>
  \<^bold>\<open>C3\<close>, as the claim states it: the repository name is the entire part after the
  first \<open>/\<close> of the remainder. It is not: for
  \<^verbatim>\<open>https://github.com/acme/widgets/tree/main\<close> construction succeeds and the source
  action's repository is \<^verbatim>\<open>widgets\<close>, while the entire part after the first \<open>/\<close>
  is \<^verbatim>\<open>widgets/tree/main\<close>.
\<close>

theorem repo_is_not_entire_rest:
  "snd (Pipeline_constructor [] ''Delivery''
         (props_with_source ''https://github.com/acme/widgets/tree/main'') empty_store) = Inr () \<and>
   map repo (source_actions (stages_of (children (fst (Pipeline_constructor [] ''Delivery''
       (props_with_source ''https://github.com/acme/widgets/tree/main'') empty_store)))))
     = [Some ''widgets''] \<and>
   after_first_slash (drop (length ''https://github.com/'')
       (source (props_with_source ''https://github.com/acme/widgets/tree/main'')))
     = ''widgets/tree/main''"
  by (simp add: Pipeline_constructor_def Construct_constructor_def Let_def sourcePrefix_def
      props_with_source_def startsWith_def substr_def split_str_def element_def
      after_first_slash_def DeployAction_constructor_def join_def validName_all bind_result
      source_actions_def empty_store_def)

text \<open>
  \<^bold>\<open>C3\<close>, amended. The constructor strips the prefix \<^verbatim>\<open>https://github.com/\<close> and
  splits the remainder at every \<open>/\<close>. The one source action of a constructed pipeline
  has as owner the part of the remainder before its first \<open>/\<close>, and as repository the
  part between the first \<open>/\<close> and the second (the entire part after the first \<open>/\<close>
  when there is no second); the repository is undefined when the remainder has no
  \<open>/\<close>.
\<close>

theorem owner_repo_first_two_segments:
  assumes "Pipeline_constructor scope ident props st = (out, Inr ())"
  shows "startsWith (source props) ''https://github.com/'' \<and>
   (\<exists>g. source_actions (stages_of (children out)) = [g] \<and>
     owner g = Some (before_first_slash (drop (length ''https://github.com/'') (source props))) \<and>
     repo g =
       (if CHR ''/'' \<in> set (drop (length ''https://github.com/'') (source props))
        then Some (before_first_slash (after_first_slash
                     (drop (length ''https://github.com/'') (source props))))
        else None))"
  using Pipeline_constructor_Inr [OF assms]
  by (auto simp: sourcePrefix_def element_split_0 element_split_1 substr_def
      before_first_slash_def after_first_slash_def source_actions_def)

theorem owner_repo_first_two_segments_witness:
  "\<exists>out g.
      Pipeline_constructor [] ''Delivery'' (props_with_source ''https://github.com/acme/widgets'')
        empty_store = (out, Inr ()) \<and>
      source_actions (stages_of (children out)) = [g] \<and>
      owner g = Some ''acme'' \<and> repo g = Some ''widgets''"
proof -
  obtain out where h: "Pipeline_constructor [] ''Delivery''
      (props_with_source ''https://github.com/acme/widgets'') empty_store = (out, Inr ())"
    using example_pipeline_succeeds [where rest = "''acme/widgets''" and adm = None]
    by (auto simp: props_with_source_def)
  show ?thesis
    using h owner_repo_first_two_segments [OF h]
    by (auto simp: props_with_source_def before_first_slash_def after_first_slash_def)
qed



text \<open>
  \<^bold>\<open>C6.\<close> A pipeline constructed with identifier \<open>ident\<close> holds exactly three exports:
  the name of the publish bucket under \<^verbatim>\<open>cdk-pipeline:<id>-bucket\<close>, the object key
  \<^verbatim>\<open>cloud-assembly.zip\<close> under \<^verbatim>\<open>cdk-pipeline:<id>-object-key\<close>, and the
  toolchain version (the given one, \<^verbatim>\<open>latest\<close> when absent or empty) under
  \<^verbatim>\<open>cdk-pipeline:<id>-toolchain-version\<close>.
\<close>

theorem three_exports:
  assumes "Pipeline_constructor scope ident props st = (out, Inr ())"
  shows "exports_of (children out) =
       [ (''cdk-pipeline:'' @ ident @ ''-bucket'', BucketNameOf ''Publish''),
         (''cdk-pipeline:'' @ ident @ ''-object-key'', Literal ''cloud-assembly.zip''),
         (''cdk-pipeline:'' @ ident @ ''-toolchain-version'',
            Literal (case pp_version props of None \<Rightarrow> ''latest''
                     | Some v \<Rightarrow> if v = [] then ''latest'' else v)) ]"
  using Pipeline_constructor_Inr [OF assms]
  by (auto simp: or_default_def)

theorem three_exports_witness:
  "\<exists>out.
      Pipeline_constructor [] ''Delivery'' (props_with_source ''https://github.com/acme/widgets'')
        empty_store = (out, Inr ()) \<and>
      exports_of (children out) =
        [ (''cdk-pipeline:Delivery-bucket'', BucketNameOf ''Publish''),
          (''cdk-pipeline:Delivery-object-key'', Literal ''cloud-assembly.zip''),
          (''cdk-pipeline:Delivery-toolchain-version'', Literal ''latest'') ]"
proof -
  obtain out where h: "Pipeline_constructor [] ''Delivery''
      (props_with_source ''https://github.com/acme/widgets'') empty_store = (out, Inr ())"
    using example_pipeline_succeeds [where rest = "''acme/widgets''" and adm = None]
    by (auto simp: props_with_source_def)
  show ?thesis
    using h three_exports [OF h]
    by (auto simp: props_with_source_def)
qed

text \<open>
  \<^bold>\<open>C7.\<close> The constructor does the same whatever the configuration's admin field is
  set to (true, false or absent), and a constructed pipeline holds one deploy action, whose
  admin flag is true.
\<close>

theorem deploy_admin_always_true:
  "Pipeline_constructor scope ident (props\<lparr>pp_admin := adm\<rparr>) st
     = Pipeline_constructor scope ident props st \<and>
   (Pipeline_constructor scope ident (props\<lparr>pp_admin := adm\<rparr>) st = (out, Inr ()) \<longrightarrow>
      (\<exists>d. deploy_actions (stages_of (children out)) = [d] \<and> da_admin d))"
proof
  show "Pipeline_constructor scope ident (props\<lparr>pp_admin := adm\<rparr>) st
          = Pipeline_constructor scope ident props st"
    by (simp add: Pipeline_constructor_def Let_def cong: sum.case_cong if_cong)
next
  show "Pipeline_constructor scope ident (props\<lparr>pp_admin := adm\<rparr>) st = (out, Inr ()) \<longrightarrow>
      (\<exists>d. deploy_actions (stages_of (children out)) = [d] \<and> da_admin d)"
  proof
    assume h: "Pipeline_constructor scope ident (props\<lparr>pp_admin := adm\<rparr>) st = (out, Inr ())"
    from Pipeline_constructor_Inr [OF h] obtain a a' sc where
      a: "DeployAction_constructor
           \<lparr> dp_stacks = pp_stacks props, dp_exclusively = pp_exclusively props,
             dp_admin = True, dp_version = pp_version props,
             dp_assembly = OutputArtifactOf ''BuildDeploy'' \<rparr> = Inr a"
      and b: "bind a ''Deploy'' [] st = Inr (a', sc, heap out)"
      and d: "deploy_actions (stages_of (children out)) = [a']"
      by (auto simp: deploy_actions_def)
    have "da_admin a"
      using DeployAction_constructor_Inr(2) [OF a] by simp
    then have "da_admin a'"
      using b by (auto simp: bind_result)
    with d show "\<exists>d. deploy_actions (stages_of (children out)) = [d] \<and> da_admin d"
      by simp
  qed
qed

theorem deploy_admin_always_true_witness:
  "\<exists>out d.
      Pipeline_constructor [] ''Delivery''
        ((props_with_source ''https://github.com/acme/widgets'')\<lparr>pp_admin := Some False\<rparr>)
        empty_store = (out, Inr ()) \<and>
      deploy_actions (stages_of (children out)) = [d] \<and> da_admin d"
proof -
  obtain out where h: "Pipeline_constructor [] ''Delivery''
      ((props_with_source ''https://github.com/acme/widgets'')\<lparr>pp_admin := Some False\<rparr>)
      empty_store = (out, Inr ())"
    using example_pipeline_succeeds [where rest = "''acme/widgets''" and adm = "Some False"]
    by auto
  show ?thesis
    using h deploy_admin_always_true
      [where scope = "[]" and ident = "''Delivery''" and adm = "Some False"
         and props = "props_with_source ''https://github.com/acme/widgets''"
         and st = empty_store and out = out]
    by auto
qed

end
